theory Spec2Isabelle
  imports Complex_Main
begin

section \<open>Conventions of the embedding\<close>

text \<open>
  The planet generator is TypeScript. A \<^verbatim>\<open>number\<close> is modelled as a \<^typ>\<open>real\<close>: the
  properties below are about branch structure, clamping and interpolation formulas, and
  are stated over exact arithmetic (no rounding of doubles, no NaN, no signed zero; where
  the source can produce NaN, as \<^verbatim>\<open>Math.asin\<close> outside [-1,1], the model has an explicit
  branch for it). \<^verbatim>\<open>Math.floor\<close> is \<^const>\<open>floor\<close>, \<^verbatim>\<open>Math.round\<close> rounds half up and is
  \<^const>\<open>round\<close>. Mutable objects become records passed in and returned; draws of
  \<^verbatim>\<open>Math.random()\<close> become arguments. Reading a property of \<^verbatim>\<open>undefined\<close> throws a
  TypeError in the source and is a value of \<open>js_error\<close> here; so is a read past the
  end of an array that would hand \<^verbatim>\<open>undefined\<close> to a caller expecting a number.
\<close>

datatype js_error = TypeError | UndefinedResult

text \<open>Reading \<^verbatim>\<open>xs[i]\<close>: \<^verbatim>\<open>undefined\<close> (here \<open>None\<close>) outside the array.\<close>

definition js_nth :: "'a list \<Rightarrow> int \<Rightarrow> 'a option" where
  "js_nth xs i = (if 0 \<le> i \<and> i < int (length xs) then Some (xs ! nat i) else None)"

text \<open>
  \<^verbatim>\<open>Math.asin\<close> is NaN (here \<open>None\<close>) outside [-1,1]. \<^verbatim>\<open>Math.atan2(y, x)\<close> is the angle
  of the point (x, y) in (-\<pi>, \<pi>], and 0 at the origin.
\<close>

definition Math_asin :: "real \<Rightarrow> real option" where
  "Math_asin v = (if -1 \<le> v \<and> v \<le> 1 then Some (arcsin v) else None)"

definition Math_atan2 :: "real \<Rightarrow> real \<Rightarrow> real" where
  "Math_atan2 v u =
     (if u > 0 then arctan (v / u)
      else if u < 0 \<and> v \<ge> 0 then arctan (v / u) + pi
      else if u < 0 \<and> v < 0 then arctan (v / u) - pi
      else if v > 0 then pi / 2
      else if v < 0 then - pi / 2
      else 0)"

section \<open>ColorPalettes.ts\<close>

record RGB =
  r :: real
  g :: real
  b :: real












section \<open>The noise generator\<close>

text \<open>
  Modelled from the spec: the class \<^verbatim>\<open>NoiseGenerator\<close> (utils/NoiseGenerator) is imported
  by the sources but is not among them. The spec describes it as a deterministic function
  of the seed and the three coordinates, so a generator is a function of three
  coordinates, and the constructor \<^verbatim>\<open>new NoiseGenerator(seed)\<close> is a parameter
  \<open>mkNoise\<close> of the constructors below. Nothing is assumed about its values.
\<close>

type_synonym NoiseGenerator = "real \<Rightarrow> real \<Rightarrow> real \<Rightarrow> real"

section \<open>TemporalEvolution.ts\<close>

record TemporalSnapshot =
  landWaterRatio :: real
  mountainDensity :: real
  coastlineComplexity :: real
  climate :: real
  atmosphere :: real
  clouds :: real
  timestamp :: real

text \<open>\<^verbatim>\<open>PlanetSettings\<close>, declared in pages/Terraformer.\<close>

record PlanetSettings =
  seed :: real
  landWaterRatio :: real
  coastlineComplexity :: real
  mountainDensity :: real
  climate :: real
  atmosphere :: real
  clouds :: real
  rotationSpeed :: real
  dayNightCycle :: bool
  animationPaused :: bool
  backgroundType :: real
  hasRings :: bool
  ringDensity :: real
  hasMoon :: bool
  moonSize :: real
  audioEnabled :: bool
  audioTrack :: real
  audioVolume :: real
  cameraPreset :: real
  particleEffects :: bool
  planetSize :: real
  autoOrbit :: bool
  geologicalTime :: real
  weatherCycle :: real
  climaticShift :: real
  erosionLevel :: real
  timeSpeed :: real
  temporalPaused :: bool
  showTemporalEffects :: bool
  tectonicActivity :: real
  oceanLevel :: real
  atmosphericEvolution :: real

record TemporalSettings =
  geologicalTime :: real
  weatherCycle :: real
  climaticShift :: real
  erosionLevel :: real
  timeSpeed :: real
  isPaused :: bool
  showTemporalEffects :: bool
  tectonicActivity :: real
  oceanLevel :: real
  atmosphericEvolution :: real

record TemporalEvolution =
  baseSettings :: PlanetSettings
  temporalNoise :: NoiseGenerator
  weatherNoise :: NoiseGenerator
  snapshots :: "TemporalSnapshot list"
  currentTime :: real

definition TemporalEvolution_new ::
    "(real \<Rightarrow> NoiseGenerator) \<Rightarrow> PlanetSettings \<Rightarrow> TemporalEvolution" where
  "TemporalEvolution_new mkNoise planetSettings =
     \<lparr>baseSettings = planetSettings,
      temporalNoise = mkNoise (seed planetSettings + 50000),
      weatherNoise = mkNoise (seed planetSettings + 60000),
      snapshots = [],
      currentTime = 0\<rparr>"

definition updateTime :: "real \<Rightarrow> TemporalSettings \<Rightarrow> TemporalEvolution \<Rightarrow> TemporalEvolution" where
  "updateTime deltaTime temporalSettings this =
     (if \<not> isPaused temporalSettings
      then this\<lparr>currentTime := currentTime this + deltaTime * timeSpeed temporalSettings\<rparr>
      else this)"

definition getCurrentTime :: "TemporalEvolution \<Rightarrow> real" where
  "getCurrentTime this = currentTime this"

definition getTemporallyEvolvedSettings ::
    "TemporalSettings \<Rightarrow> TemporalEvolution \<Rightarrow> PlanetSettings" where
  "getTemporallyEvolvedSettings temporalSettings this =
     (let evolved = baseSettings this;
          time = currentTime this;
          evolved =
            (if geologicalTime temporalSettings > 0 then
               (let geoScale = geologicalTime temporalSettings * 10;
                    mountainCycle = temporalNoise this (time * 0.001) 0 geoScale * 0.3;
                    evolved = evolved\<lparr>mountainDensity := max 0 (min 1
                      (mountainDensity (baseSettings this)
                        + mountainCycle * tectonicActivity temporalSettings))\<rparr>;
                    erosionFactor = (erosionLevel temporalSettings) ^ 2;
                    coastlineSmoothing = erosionFactor * 0.4;
                    evolved = evolved\<lparr>coastlineComplexity := max 0 (min 1
                      (coastlineComplexity (baseSettings this) - coastlineSmoothing
                        + temporalNoise this (time * 0.0005) geoScale 0 * 0.2))\<rparr>;
                    oceanCycle = temporalNoise this (time * 0.0008) (geoScale * 2) 0 * 0.3;
                    evolved = evolved\<lparr>landWaterRatio := max 0 (min 1
                      (landWaterRatio (baseSettings this) + oceanCycle
                        + oceanLevel temporalSettings))\<rparr>
                in evolved)
             else evolved);
          evolved =
            (if climaticShift temporalSettings > 0 then
               (let climateNoise =
                      temporalNoise this (time * 0.0002) (climaticShift temporalSettings * 5) 0
                in evolved\<lparr>climate := max 0 (min 1
                      (climate (baseSettings this)
                        + climateNoise * climaticShift temporalSettings * 0.5))\<rparr>)
             else evolved);
          evolved =
            (if atmosphericEvolution temporalSettings > 0 then
               (let atmoNoise =
                      temporalNoise this (time * 0.0001) 0 (atmosphericEvolution temporalSettings * 3)
                in evolved\<lparr>atmosphere := max 0 (min 1
                      (atmosphere (baseSettings this)
                        + atmoNoise * atmosphericEvolution temporalSettings * 0.4))\<rparr>)
             else evolved);
          evolved =
            (if weatherCycle temporalSettings > 0 then
               (let seasonalCycle = sin (time * 0.01 * weatherCycle temporalSettings) * 0.3;
                    weatherNoise' =
                      weatherNoise this (time * 0.02) (weatherCycle temporalSettings * 2) 0 * 0.4;
                    evolved = evolved\<lparr>clouds := max 0 (min 1
                      (clouds (baseSettings this) + seasonalCycle
                        + weatherNoise' * weatherCycle temporalSettings))\<rparr>;
                    evolved = evolved\<lparr>atmosphere := max 0 (min 1
                      (atmosphere evolved + seasonalCycle * 0.1))\<rparr>
                in evolved)
             else evolved)
      in evolved)"

definition saveSnapshot :: "TemporalEvolution \<Rightarrow> TemporalEvolution" where
  "saveSnapshot this =
     (let snapshot = \<lparr>TemporalSnapshot.landWaterRatio = landWaterRatio (baseSettings this),
                       TemporalSnapshot.mountainDensity = mountainDensity (baseSettings this),
                       TemporalSnapshot.coastlineComplexity = coastlineComplexity (baseSettings this),
                       TemporalSnapshot.climate = climate (baseSettings this),
                       TemporalSnapshot.atmosphere = atmosphere (baseSettings this),
                       TemporalSnapshot.clouds = clouds (baseSettings this),
                       timestamp = currentTime this\<rparr>;
          pushed = snapshots this @ [snapshot]
      in this\<lparr>snapshots := (if length pushed > 100 then tl pushed else pushed)\<rparr>)"

definition resetTime :: "TemporalEvolution \<Rightarrow> TemporalEvolution" where
  "resetTime this = this\<lparr>currentTime := 0, snapshots := []\<rparr>"

definition fastForward :: "real \<Rightarrow> TemporalEvolution \<Rightarrow> TemporalEvolution" where
  "fastForward duration this = this\<lparr>currentTime := currentTime this + duration\<rparr>"

definition rewind :: "real \<Rightarrow> TemporalEvolution \<Rightarrow> TemporalEvolution" where
  "rewind duration this = this\<lparr>currentTime := max 0 (currentTime this - duration)\<rparr>"

text \<open>
  Template literals convert a number to text. The numbers converted in
  \<^verbatim>\<open>getTimeDescription\<close> are an integer \<open>Math.floor(..)\<close> and such an integer divided
  by ten; below \<open>10\<^sup>2\<^sup>1\<close> in magnitude JavaScript prints the first in plain decimal digits
  and the second with at most one digit after the point.
\<close>

fun digits :: "nat \<Rightarrow> string" where
  "digits n = (if n < 10 then [''0123456789'' ! n]
               else digits (n div 10) @ [''0123456789'' ! (n mod 10)])"

definition integerToString :: "int \<Rightarrow> string" where
  "integerToString i = (if i < 0 then CHR ''-'' # digits (nat (- i)) else digits (nat i))"

definition tenthsToString :: "int \<Rightarrow> string" where
  "tenthsToString k =
     (let m = nat \<bar>k\<bar>;
          body = (if m mod 10 = 0 then digits (m div 10)
                  else digits (m div 10) @ ''.'' @ digits (m mod 10))
      in if k < 0 then CHR ''-'' # body else body)"

definition getTimeDescription :: "TemporalEvolution \<Rightarrow> string" where
  "getTimeDescription this =
     (let time = currentTime this
      in if time < 100 then integerToString \<lfloor>time\<rfloor> @ '' years''
         else if time < 100000 then integerToString \<lfloor>time / 1000\<rfloor> @ ''K years''
         else if time < 1000000 then tenthsToString \<lfloor>time / 100000\<rfloor> @ ''M years''
         else tenthsToString \<lfloor>time / 100000000\<rfloor> @ ''B years'')"

subsection \<open>The same method over a store of objects\<close>

text \<open>
  In the source \<^verbatim>\<open>this.baseSettings\<close> is a reference to an object, and the method starts
  with \<^verbatim>\<open>const evolved = { ...this.baseSettings }\<close>: a new object with the same fields,
  which the following assignments mutate while they keep reading \<^verbatim>\<open>this.baseSettings\<close>.
  Whether a second call sees the same base values depends on these two objects being
  distinct. Here the settings objects live in a store, a reference is an index into it,
  and the method is translated statement by statement: it returns the reference of the
  new object, the clock object and the store as they are when it returns.
\<close>

type_synonym ref = nat

type_synonym store = "PlanetSettings list"

record TemporalEvolutionObject =
  baseSettings_ref :: ref
  temporalNoise_obj :: NoiseGenerator
  weatherNoise_obj :: NoiseGenerator
  snapshots_obj :: "TemporalSnapshot list"
  currentTime_obj :: real

text \<open>\<^verbatim>\<open>{ ...o }\<close> allocates a copy of the object at \<open>o\<close>; \<^verbatim>\<open>o.f = v\<close> updates the object
  at \<open>o\<close> in place.\<close>

definition spread :: "store \<Rightarrow> ref \<Rightarrow> ref \<times> store" where
  "spread h o' = (length h, h @ [h ! o'])"

definition assign :: "store \<Rightarrow> ref \<Rightarrow> (PlanetSettings \<Rightarrow> PlanetSettings) \<Rightarrow> store" where
  "assign h o' f = h[o' := f (h ! o')]"

definition getTemporallyEvolvedSettings_store ::
    "TemporalSettings \<Rightarrow> TemporalEvolutionObject \<Rightarrow> store
       \<Rightarrow> ref \<times> TemporalEvolutionObject \<times> store" where
  "getTemporallyEvolvedSettings_store temporalSettings this h0 =
     (let (evolved, h) = spread h0 (baseSettings_ref this);
          base = baseSettings_ref this;
          time = currentTime_obj this;
          h =
            (if geologicalTime temporalSettings > 0 then
               (let geoScale = geologicalTime temporalSettings * 10;
                    mountainCycle = temporalNoise_obj this (time * 0.001) 0 geoScale * 0.3;
                    h = assign h evolved (mountainDensity_update (\<lambda>_. max 0 (min 1
                      (mountainDensity (h ! base)
                        + mountainCycle * tectonicActivity temporalSettings))));
                    erosionFactor = (erosionLevel temporalSettings) ^ 2;
                    coastlineSmoothing = erosionFactor * 0.4;
                    h = assign h evolved (coastlineComplexity_update (\<lambda>_. max 0 (min 1
                      (coastlineComplexity (h ! base) - coastlineSmoothing
                        + temporalNoise_obj this (time * 0.0005) geoScale 0 * 0.2))));
                    oceanCycle = temporalNoise_obj this (time * 0.0008) (geoScale * 2) 0 * 0.3;
                    h = assign h evolved (landWaterRatio_update (\<lambda>_. max 0 (min 1
                      (landWaterRatio (h ! base) + oceanCycle
                        + oceanLevel temporalSettings))))
                in h)
             else h);
          h =
            (if climaticShift temporalSettings > 0 then
               (let climateNoise =
                      temporalNoise_obj this (time * 0.0002) (climaticShift temporalSettings * 5) 0
                in assign h evolved (climate_update (\<lambda>_. max 0 (min 1
                      (climate (h ! base)
                        + climateNoise * climaticShift temporalSettings * 0.5)))))
             else h);
          h =
            (if atmosphericEvolution temporalSettings > 0 then
               (let atmoNoise =
                      temporalNoise_obj this (time * 0.0001) 0
                        (atmosphericEvolution temporalSettings * 3)
                in assign h evolved (atmosphere_update (\<lambda>_. max 0 (min 1
                      (atmosphere (h ! base)
                        + atmoNoise * atmosphericEvolution temporalSettings * 0.4)))))
             else h);
          h =
            (if weatherCycle temporalSettings > 0 then
               (let seasonalCycle = sin (time * 0.01 * weatherCycle temporalSettings) * 0.3;
                    weatherNoise' =
                      weatherNoise_obj this (time * 0.02) (weatherCycle temporalSettings * 2) 0 * 0.4;
                    h = assign h evolved (clouds_update (\<lambda>_. max 0 (min 1
                      (clouds (h ! base) + seasonalCycle
                        + weatherNoise' * weatherCycle temporalSettings))));
                    h = assign h evolved (atmosphere_update (\<lambda>_. max 0 (min 1
                      (atmosphere (h ! evolved) + seasonalCycle * 0.1))))
                in h)
             else h)
      in (evolved, this, h))"

text \<open>The clock object read as a value: its base settings are the object the reference
  points to in the store.\<close>

definition asValue :: "TemporalEvolutionObject \<Rightarrow> store \<Rightarrow> TemporalEvolution" where
  "asValue this h =
     \<lparr>baseSettings = h ! baseSettings_ref this,
      temporalNoise = temporalNoise_obj this,
      weatherNoise = weatherNoise_obj this,
      snapshots = snapshots_obj this,
      currentTime = currentTime_obj this\<rparr>"

section \<open>WeatherSystem.ts\<close>

text \<open>
  \<^verbatim>\<open>THREE.Vector3\<close> with the methods the weather system calls. \<^verbatim>\<open>normalize\<close> divides by
  the length, or by 1 when the length is zero.
\<close>

record Vector3 =
  x :: real
  y :: real
  z :: real

definition add :: "Vector3 \<Rightarrow> Vector3 \<Rightarrow> Vector3" where
  "add u v = \<lparr>x = x u + x v, y = y u + y v, z = z u + z v\<rparr>"

definition multiplyScalar :: "Vector3 \<Rightarrow> real \<Rightarrow> Vector3" where
  "multiplyScalar v s = \<lparr>x = x v * s, y = y v * s, z = z v * s\<rparr>"

definition normalize :: "Vector3 \<Rightarrow> Vector3" where
  "normalize v =
     (let len = sqrt (x v * x v + y v * y v + z v * z v)
      in multiplyScalar v (1 / (if len = 0 then 1 else len)))"

datatype StormType = thunderstorm | cyclone | dust | aurora

record StormSystem =
  position :: Vector3
  radius :: real
  intensity :: real
  rotation :: real
  type :: StormType
  lifespan :: real
  age :: real

record WeatherSystem =
  noise :: NoiseGenerator
  stormSystems :: "StormSystem list"
  globalWindPattern :: "Vector3 list"
  temperatureMap :: "real list list"
  currentTime :: real

text \<open>
  The two lattices are filled by counting loops: latitude -90, -80, .., 90 and longitude
  -180, -170, .., 180 for the wind pattern (one flat array, latitude-major), latitude
  0, 5, .., 175 and longitude 0, 5, .., 355 for the temperature map (an array of rows).
\<close>

definition generateGlobalWindPattern :: "NoiseGenerator \<Rightarrow> Vector3 list" where
  "generateGlobalWindPattern nz =
     concat (map (\<lambda>i. map (\<lambda>j.
        (let lat = -90 + 10 * real i;
             lon = -180 + 10 * real j;
             latRad = (lat * pi) / 180;
             coriolisStrength = sin latRad * 0.8;
             tradeWinds = cos (latRad * 3) * 0.6
         in normalize \<lparr>x = tradeWinds + nz (lon * 0.01) (lat * 0.01) 0 * 0.4,
                         y = coriolisStrength,
                         z = nz (lon * 0.02) (lat * 0.02) 1 * 0.3\<rparr>))
        [0..<37]) [0..<19])"

definition generateTemperatureMap :: "NoiseGenerator \<Rightarrow> real list list" where
  "generateTemperatureMap nz =
     map (\<lambda>i. map (\<lambda>j.
        (let lat = 5 * real i;
             lon = 5 * real j;
             latNorm = (lat - 90) / 90;
             baseTemp = cos (latNorm * pi * 0.5);
             terrainVariation = nz (lon * 0.02) (lat * 0.02) 2 * 0.3
         in max 0 (min 1 (baseTemp + terrainVariation))))
        [0..<72]) [0..<36]"

definition WeatherSystem_new :: "(real \<Rightarrow> NoiseGenerator) \<Rightarrow> real \<Rightarrow> WeatherSystem" where
  "WeatherSystem_new mkNoise seed' =
     (let nz = mkNoise (seed' + 70000)
      in \<lparr>noise = nz,
          stormSystems = [],
          globalWindPattern = generateGlobalWindPattern nz,
          temperatureMap = generateTemperatureMap nz,
          currentTime = 0\<rparr>)"

text \<open>
  The callback of \<^verbatim>\<open>filter\<close> in \<^verbatim>\<open>update\<close> first mutates the storm (\<open>updateStorm\<close>) and
  then decides whether it stays (\<open>stormStays\<close>). Where \<open>lifespan\<close> is zero the source
  divides by zero; no storm is created with such a lifespan.
\<close>

definition updateStorm :: "Vector3 list \<Rightarrow> real \<Rightarrow> real \<Rightarrow> StormSystem \<Rightarrow> StormSystem" where
  "updateStorm wind deltaTime timeSpeed' storm =
     (let storm = storm\<lparr>age := age storm + deltaTime * timeSpeed'\<rparr>;
          storm = storm\<lparr>rotation := rotation storm + deltaTime * timeSpeed' * intensity storm\<rparr>;
          windIndex = \<lfloor>(x (position storm) + 1) * 18\<rfloor> + \<lfloor>(y (position storm) + 1) * 18\<rfloor> * 36;
          storm = (if windIndex \<ge> 0 \<and> windIndex < int (length wind)
                   then storm\<lparr>position := add (position storm)
                          (multiplyScalar (wind ! nat windIndex) (deltaTime * 0.01))\<rparr>
                   else storm);
          storm = (if age storm < lifespan storm * 0.2
                   then storm\<lparr>intensity := (age storm / (lifespan storm * 0.2)) * intensity storm\<rparr>
                   else if age storm > lifespan storm * 0.8
                   then (let dissipationFactor =
                               1 - ((age storm - lifespan storm * 0.8) / (lifespan storm * 0.2))
                         in storm\<lparr>intensity := intensity storm * dissipationFactor\<rparr>)
                   else storm)
      in storm)"

definition stormStays :: "StormSystem \<Rightarrow> bool" where
  "stormStays storm \<longleftrightarrow> age storm < lifespan storm \<and> intensity storm > 0.1"

text \<open>
  The draws of \<^verbatim>\<open>Math.random()\<close> made by \<^verbatim>\<open>spawnRandomStorm\<close>, in the order of the
  calls; each lies in [0,1). \<open>poleDraw\<close> is only made for an aurora.
\<close>

record SpawnDraws =
  typeDraw :: real
  xDraw :: real
  yDraw :: real
  zDraw :: real
  radiusDraw :: real
  intensityDraw :: real
  lifespanDraw :: real
  poleDraw :: real

definition validDraws :: "SpawnDraws \<Rightarrow> bool" where
  "validDraws d \<longleftrightarrow>
     0 \<le> typeDraw d \<and> typeDraw d < 1 \<and> 0 \<le> xDraw d \<and> xDraw d < 1 \<and>
     0 \<le> yDraw d \<and> yDraw d < 1 \<and> 0 \<le> zDraw d \<and> zDraw d < 1 \<and>
     0 \<le> radiusDraw d \<and> radiusDraw d < 1 \<and> 0 \<le> intensityDraw d \<and> intensityDraw d < 1 \<and>
     0 \<le> lifespanDraw d \<and> lifespanDraw d < 1 \<and> 0 \<le> poleDraw d \<and> poleDraw d < 1"

definition stormTypes :: "StormType list" where
  "stormTypes = [thunderstorm, cyclone, dust, aurora]"

text \<open>
  \<open>newStorm\<close> is the storm object that \<^verbatim>\<open>spawnRandomStorm\<close> builds and adjusts by
  type; \<open>spawnRandomStorm\<close> pushes it onto the array.
\<close>

definition newStorm :: "SpawnDraws \<Rightarrow> StormSystem" where
  "newStorm d =
     (let type' = stormTypes ! nat \<lfloor>typeDraw d * real (length stormTypes)\<rfloor>;
          storm = \<lparr>position = \<lparr>x = (xDraw d - 0.5) * 2,
                                 y = (yDraw d - 0.5) * 2,
                                 z = (zDraw d - 0.5) * 0.2 + 1.6\<rparr>,
                   radius = 0.1 + radiusDraw d * 0.3,
                   intensity = 0.5 + intensityDraw d * 0.5,
                   rotation = 0,
                   type = type',
                   lifespan = 50 + lifespanDraw d * 200,
                   age = 0\<rparr>
      in case type' of
           cyclone \<Rightarrow> storm\<lparr>radius := radius storm * 1.5,
                             lifespan := lifespan storm * 2,
                             intensity := intensity storm * 1.2\<rparr>
         | dust \<Rightarrow> storm\<lparr>radius := radius storm * 2,
                          intensity := intensity storm * 0.8,
                          position := (position storm)\<lparr>z := 1.55\<rparr>\<rparr>
         | aurora \<Rightarrow> storm\<lparr>radius := radius storm * 0.5,
                            position := (position storm)\<lparr>z := 2.0,
                              x := (if poleDraw d > 0.5 then 1.2 else -1.2)\<rparr>\<rparr>
         | thunderstorm \<Rightarrow> storm)"

definition spawnRandomStorm :: "SpawnDraws \<Rightarrow> WeatherSystem \<Rightarrow> WeatherSystem" where
  "spawnRandomStorm d this = this\<lparr>stormSystems := stormSystems this @ [newStorm d]\<rparr>"

text \<open>
  \<open>update\<close>: \<open>spawnRoll\<close> is the draw compared with 0.02, \<open>d\<close> the draws of the spawn
  that follows when it is taken.
\<close>

definition update :: "real \<Rightarrow> real \<Rightarrow> real \<Rightarrow> SpawnDraws \<Rightarrow> WeatherSystem \<Rightarrow> WeatherSystem" where
  "update deltaTime timeSpeed' spawnRoll d this =
     (let this = this\<lparr>currentTime := currentTime this + deltaTime * timeSpeed'\<rparr>;
          this = this\<lparr>stormSystems :=
                   filter stormStays
                     (map (updateStorm (globalWindPattern this) deltaTime timeSpeed')
                        (stormSystems this))\<rparr>
      in if spawnRoll < 0.02 then spawnRandomStorm d this else this)"

definition getActiveStorms :: "WeatherSystem \<Rightarrow> StormSystem list" where
  "getActiveStorms this = stormSystems this"

definition reset :: "WeatherSystem \<Rightarrow> WeatherSystem" where
  "reset this = this\<lparr>stormSystems := [], currentTime := 0\<rparr>"

text \<open>
  \<open>getTemperatureAt\<close>. When \<^verbatim>\<open>Math.asin\<close> yields NaN, \<open>latIndex\<close> is NaN, the comparison
  \<open>latIndex >= 0\<close> is false and the default is returned. The conjunction is evaluated
  left to right, so \<^verbatim>\<open>this.temperatureMap[0].length\<close> is only read once \<open>latIndex\<close> is
  known to be inside the array.
\<close>

definition getTemperatureAt :: "WeatherSystem \<Rightarrow> Vector3 \<Rightarrow> js_error + real" where
  "getTemperatureAt this position' =
     (case Math_asin (y position') of
        None \<Rightarrow> Inr 0.5
      | Some a \<Rightarrow>
          (let lat = a * 180 / pi + 90;
               lon = Math_atan2 (z position') (x position') * 180 / pi + 180;
               latIndex = \<lfloor>lat / 5\<rfloor>;
               lonIndex = \<lfloor>lon / 5\<rfloor>
           in if latIndex \<ge> 0 \<and> latIndex < int (length (temperatureMap this)) then
                (case js_nth (temperatureMap this) 0 of
                   None \<Rightarrow> Inl TypeError
                 | Some row0 \<Rightarrow>
                     if lonIndex \<ge> 0 \<and> lonIndex < int (length row0) then
                       (case js_nth (temperatureMap this) latIndex of
                          None \<Rightarrow> Inl TypeError
                        | Some row \<Rightarrow>
                            (case js_nth row lonIndex of
                               None \<Rightarrow> Inl UndefinedResult
                             | Some t \<Rightarrow> Inr t))
                     else Inr 0.5)
              else Inr 0.5))"

section \<open>Notions used to state the properties\<close>

text \<open>The lattice indices that \<open>getTemperatureAt\<close> derives from a position.\<close>

definition latIndexOf :: "Vector3 \<Rightarrow> int" where
  "latIndexOf p = \<lfloor>(arcsin (y p) * 180 / pi + 90) / 5\<rfloor>"

definition lonIndexOf :: "Vector3 \<Rightarrow> int" where
  "lonIndexOf p = \<lfloor>(Math_atan2 (z p) (x p) * 180 / pi + 180) / 5\<rfloor>"

definition inLattice :: "Vector3 \<Rightarrow> bool" where
  "inLattice p \<longleftrightarrow>
     -1 \<le> y p \<and> y p \<le> 1 \<and> 0 \<le> latIndexOf p \<and> latIndexOf p < 36 \<and>
     0 \<le> lonIndexOf p \<and> lonIndexOf p < 72"

text \<open>
  The states a weather system goes through: built by the constructor for a seed, then
  any sequence of \<open>update\<close> (with draws in [0,1)) and \<open>reset\<close>.
\<close>

inductive reachable :: "(real \<Rightarrow> NoiseGenerator) \<Rightarrow> real \<Rightarrow> WeatherSystem \<Rightarrow> bool"
  for mkNoise :: "real \<Rightarrow> NoiseGenerator" and seed' :: real where
  reachable_new: "reachable mkNoise seed' (WeatherSystem_new mkNoise seed')"
| reachable_update:
    "reachable mkNoise seed' ws \<Longrightarrow> validDraws d \<Longrightarrow> 0 \<le> spawnRoll \<Longrightarrow> spawnRoll < 1 \<Longrightarrow>
     reachable mkNoise seed' (update deltaTime timeSpeed' spawnRoll d ws)"
| reachable_reset: "reachable mkNoise seed' ws \<Longrightarrow> reachable mkNoise seed' (reset ws)"

text \<open>The six evolving fields of a parameter set lie in their declared range [0,1].\<close>

definition boundedSettings :: "PlanetSettings \<Rightarrow> bool" where
  "boundedSettings ps \<longleftrightarrow>
     0 \<le> mountainDensity ps \<and> mountainDensity ps \<le> 1 \<and>
     0 \<le> coastlineComplexity ps \<and> coastlineComplexity ps \<le> 1 \<and>
     0 \<le> landWaterRatio ps \<and> landWaterRatio ps \<le> 1 \<and>
     0 \<le> climate ps \<and> climate ps \<le> 1 \<and>
     0 \<le> atmosphere ps \<and> atmosphere ps \<le> 1 \<and>
     0 \<le> clouds ps \<and> clouds ps \<le> 1"

text \<open>Concrete inputs for the examples: a noise that is constantly zero, the default
  settings of the application (with seed 42), temporal settings with every knob turned
  on, and draws for one spawn.\<close>

definition zeroNoise :: "real \<Rightarrow> NoiseGenerator" where
  "zeroNoise s = (\<lambda>u v w. 0)"

definition defaultSettings :: PlanetSettings where
  "defaultSettings =
     \<lparr>seed = 42, PlanetSettings.landWaterRatio = 0.4, PlanetSettings.coastlineComplexity = 0.5,
      PlanetSettings.mountainDensity = 0.3, PlanetSettings.climate = 0.5,
      PlanetSettings.atmosphere = 0.4, PlanetSettings.clouds = 0.6, rotationSpeed = 1,
      dayNightCycle = False, animationPaused = False, backgroundType = 0, hasRings = False,
      ringDensity = 0.5, hasMoon = False, moonSize = 0.3, audioEnabled = False,
      audioTrack = 0, audioVolume = 0.5, cameraPreset = 0, particleEffects = True,
      planetSize = 1.0, autoOrbit = False, PlanetSettings.geologicalTime = 0,
      PlanetSettings.weatherCycle = 0, PlanetSettings.climaticShift = 0,
      PlanetSettings.erosionLevel = 0, PlanetSettings.timeSpeed = 1, temporalPaused = True,
      PlanetSettings.showTemporalEffects = True, PlanetSettings.tectonicActivity = 0.5,
      PlanetSettings.oceanLevel = 0, PlanetSettings.atmosphericEvolution = 0\<rparr>"

definition activeKnobs :: "real \<Rightarrow> TemporalSettings" where
  "activeKnobs geo =
     \<lparr>geologicalTime = geo, weatherCycle = 0.5, climaticShift = 0.5, erosionLevel = 0.5,
      timeSpeed = 1, isPaused = False, showTemporalEffects = True, tectonicActivity = 0.5,
      oceanLevel = 0.1, atmosphericEvolution = 0.5\<rparr>"

definition spawnDraws :: "real \<Rightarrow> real \<Rightarrow> real \<Rightarrow> SpawnDraws" where
  "spawnDraws t i l =
     \<lparr>typeDraw = t, xDraw = 1/2, yDraw = 1/2, zDraw = 1/2, radiusDraw = 1/2,
      intensityDraw = i, lifespanDraw = l, poleDraw = 1/2\<rparr>"

text \<open>What the lattice holds for a position, and the default outside it.\<close>

definition latticeTemperature :: "WeatherSystem \<Rightarrow> Vector3 \<Rightarrow> real" where
  "latticeTemperature ws p =
     (if inLattice p then temperatureMap ws ! nat (latIndexOf p) ! nat (lonIndexOf p)
      else 0.5)"

text \<open>A weather system for seed 0 right after a spawn with the draws \<open>d\<close>, and an
  evolution clock at time \<open>t\<close>.\<close>

definition afterSpawn :: "SpawnDraws \<Rightarrow> WeatherSystem" where
  "afterSpawn d = update 0 1 0 d (WeatherSystem_new zeroNoise 0)"

definition clockAt :: "real \<Rightarrow> TemporalEvolution" where
  "clockAt t = fastForward t (TemporalEvolution_new zeroNoise defaultSettings)"

text \<open>Further concrete inputs: temporal settings with every knob at zero, a base
  parameter set with two fields outside [0,1], a clock over a given base parameter set,
  and a clock object in a store that holds the default settings.\<close>

definition knobsOff :: TemporalSettings where
  "knobsOff =
     \<lparr>geologicalTime = 0, weatherCycle = 0, climaticShift = 0, erosionLevel = 0,
      timeSpeed = 1, isPaused = False, showTemporalEffects = True, tectonicActivity = 0.5,
      oceanLevel = 0, atmosphericEvolution = 0\<rparr>"

definition outOfRangeSettings :: PlanetSettings where
  "outOfRangeSettings = defaultSettings\<lparr>mountainDensity := 1.5, clouds := -0.2\<rparr>"

definition clockOver :: "PlanetSettings \<Rightarrow> real \<Rightarrow> TemporalEvolution" where
  "clockOver ps t = fastForward t (TemporalEvolution_new zeroNoise ps)"

definition clockObject :: "real \<Rightarrow> TemporalEvolutionObject" where
  "clockObject t =
     \<lparr>baseSettings_ref = 0, temporalNoise_obj = zeroNoise 50042,
      weatherNoise_obj = zeroNoise 60042, snapshots_obj = [], currentTime_obj = t\<rparr>"

section \<open>Properties of the colour palettes and of the temporal evolution\<close>

subsection \<open>Colour banding\<close>





subsection \<open>Temporal evolution\<close>

lemma mountainDensity_evolved:
  "mountainDensity (getTemporallyEvolvedSettings ts this) =
     (if geologicalTime ts > 0
      then max 0 (min 1 (mountainDensity (baseSettings this)
             + temporalNoise this (TemporalEvolution.currentTime this * 0.001) 0 (geologicalTime ts * 10) * 0.3
               * tectonicActivity ts))
      else mountainDensity (baseSettings this))"
  unfolding getTemporallyEvolvedSettings_def Let_def
  apply (cases "0 < geologicalTime ts"; cases "0 < climaticShift ts";
         cases "0 < atmosphericEvolution ts"; cases "0 < weatherCycle ts")
  apply (simp_all only: if_True if_False)
  apply simp_all
  done

lemma coastlineComplexity_evolved:
  "coastlineComplexity (getTemporallyEvolvedSettings ts this) =
     (if geologicalTime ts > 0
      then max 0 (min 1 (coastlineComplexity (baseSettings this) - (erosionLevel ts)^2 * 0.4
             + temporalNoise this (TemporalEvolution.currentTime this * 0.0005) (geologicalTime ts * 10) 0 * 0.2))
      else coastlineComplexity (baseSettings this))"
  unfolding getTemporallyEvolvedSettings_def Let_def
  apply (cases "0 < geologicalTime ts"; cases "0 < climaticShift ts";
         cases "0 < atmosphericEvolution ts"; cases "0 < weatherCycle ts")
  apply (simp_all only: if_True if_False)
  apply simp_all
  done

lemma landWaterRatio_evolved:
  "landWaterRatio (getTemporallyEvolvedSettings ts this) =
     (if geologicalTime ts > 0
      then max 0 (min 1 (landWaterRatio (baseSettings this)
             + temporalNoise this (TemporalEvolution.currentTime this * 0.0008) (geologicalTime ts * 10 * 2) 0 * 0.3
             + oceanLevel ts))
      else landWaterRatio (baseSettings this))"
  unfolding getTemporallyEvolvedSettings_def Let_def
  apply (cases "0 < geologicalTime ts"; cases "0 < climaticShift ts";
         cases "0 < atmosphericEvolution ts"; cases "0 < weatherCycle ts")
  apply (simp_all only: if_True if_False)
  apply simp_all
  done

lemma climate_evolved:
  "climate (getTemporallyEvolvedSettings ts this) =
     (if climaticShift ts > 0
      then max 0 (min 1 (climate (baseSettings this)
             + temporalNoise this (TemporalEvolution.currentTime this * 0.0002) (climaticShift ts * 5) 0
               * climaticShift ts * 0.5))
      else climate (baseSettings this))"
  unfolding getTemporallyEvolvedSettings_def Let_def
  apply (cases "0 < geologicalTime ts"; cases "0 < climaticShift ts";
         cases "0 < atmosphericEvolution ts"; cases "0 < weatherCycle ts")
  apply (simp_all only: if_True if_False)
  apply simp_all
  done

lemma clouds_evolved:
  "clouds (getTemporallyEvolvedSettings ts this) =
     (if weatherCycle ts > 0
      then max 0 (min 1 (clouds (baseSettings this)
             + sin (TemporalEvolution.currentTime this * 0.01 * weatherCycle ts) * 0.3
             + weatherNoise this (TemporalEvolution.currentTime this * 0.02) (weatherCycle ts * 2) 0 * 0.4
               * weatherCycle ts))
      else clouds (baseSettings this))"
  unfolding getTemporallyEvolvedSettings_def Let_def
  apply (cases "0 < geologicalTime ts"; cases "0 < climaticShift ts";
         cases "0 < atmosphericEvolution ts"; cases "0 < weatherCycle ts")
  apply (simp_all only: if_True if_False)
  apply simp_all
  done

lemma atmosphere_evolved:
  "atmosphere (getTemporallyEvolvedSettings ts this) =
     (let evolvedAtmosphere =
            (if atmosphericEvolution ts > 0
             then max 0 (min 1 (atmosphere (baseSettings this)
                    + temporalNoise this (TemporalEvolution.currentTime this * 0.0001) 0
                        (atmosphericEvolution ts * 3) * atmosphericEvolution ts * 0.4))
             else atmosphere (baseSettings this))
      in if weatherCycle ts > 0
         then max 0 (min 1 (evolvedAtmosphere
                + sin (TemporalEvolution.currentTime this * 0.01 * weatherCycle ts) * 0.3 * 0.1))
         else evolvedAtmosphere)"
  unfolding getTemporallyEvolvedSettings_def Let_def
  apply (cases "0 < geologicalTime ts"; cases "0 < climaticShift ts";
         cases "0 < atmosphericEvolution ts"; cases "0 < weatherCycle ts")
  apply (simp_all only: if_True if_False)
  apply simp_all
  done

lemma clamp_or_keep:
  fixes v w :: real
  assumes "0 \<le> w" "w \<le> 1"
  shows "0 \<le> (if c then max 0 (min 1 v) else w) \<and> (if c then max 0 (min 1 v) else w) \<le> 1"
  using assms by simp

lemma evolved_bounded_of_bounded_base:
  assumes "boundedSettings (baseSettings this)"
  shows "boundedSettings (getTemporallyEvolvedSettings ts this)"
proof -
  from assms have b:
    "0 \<le> mountainDensity (baseSettings this)" "mountainDensity (baseSettings this) \<le> 1"
    "0 \<le> coastlineComplexity (baseSettings this)" "coastlineComplexity (baseSettings this) \<le> 1"
    "0 \<le> landWaterRatio (baseSettings this)" "landWaterRatio (baseSettings this) \<le> 1"
    "0 \<le> climate (baseSettings this)" "climate (baseSettings this) \<le> 1"
    "0 \<le> atmosphere (baseSettings this)" "atmosphere (baseSettings this) \<le> 1"
    "0 \<le> clouds (baseSettings this)" "clouds (baseSettings this) \<le> 1"
    by (simp_all add: boundedSettings_def)
  let ?e = "getTemporallyEvolvedSettings ts this"
  have m: "0 \<le> mountainDensity ?e \<and> mountainDensity ?e \<le> 1"
    unfolding mountainDensity_evolved by (rule clamp_or_keep) (rule b)+
  have c: "0 \<le> coastlineComplexity ?e \<and> coastlineComplexity ?e \<le> 1"
    unfolding coastlineComplexity_evolved by (rule clamp_or_keep) (rule b)+
  have l: "0 \<le> landWaterRatio ?e \<and> landWaterRatio ?e \<le> 1"
    unfolding landWaterRatio_evolved by (rule clamp_or_keep) (rule b)+
  have k: "0 \<le> climate ?e \<and> climate ?e \<le> 1"
    unfolding climate_evolved by (rule clamp_or_keep) (rule b)+
  have d: "0 \<le> clouds ?e \<and> clouds ?e \<le> 1"
    unfolding clouds_evolved by (rule clamp_or_keep) (rule b)+
  have a: "0 \<le> atmosphere ?e \<and> atmosphere ?e \<le> 1"
  proof -
    let ?a1 = "if atmosphericEvolution ts > 0
             then max 0 (min 1 (atmosphere (baseSettings this)
                    + temporalNoise this (TemporalEvolution.currentTime this * 0.0001) 0
                        (atmosphericEvolution ts * 3) * atmosphericEvolution ts * 0.4))
             else atmosphere (baseSettings this)"
    have a1: "0 \<le> ?a1 \<and> ?a1 \<le> 1"
      by (rule clamp_or_keep) (rule b)+
    show ?thesis
      unfolding atmosphere_evolved Let_def
      by (rule clamp_or_keep) (use a1 in blast)+
  qed
  from m c l k d a show ?thesis
    unfolding boundedSettings_def by blast
qed

lemma boundedSettings_default: "boundedSettings defaultSettings"
  by (simp add: boundedSettings_def defaultSettings_def)

lemma baseSettings_clockAt: "baseSettings (clockAt t) = defaultSettings"
  by (simp add: clockAt_def fastForward_def TemporalEvolution_new_def)

lemma currentTime_clockAt: "TemporalEvolution.currentTime (clockAt t) = t"
  by (simp add: clockAt_def fastForward_def TemporalEvolution_new_def)

text \<open>
  C6 (as the code has it). A field of the evolved parameter set is clamped into [0,1]
  whenever the knob that governs it is positive, whatever the base value: geological time
  for mountain density, coastline complexity and land-water ratio, climatic shift for
  climate, atmospheric evolution or weather cycle for atmosphere, weather cycle for
  clouds. A field whose knob is not positive is the base value, unchanged and unclamped.
  So all six fields lie in [0,1] whenever those of the base parameter set do, for all
  temporal settings, clock times and noise functions.
\<close>

theorem evolved_fields_clamped_when_knob_positive:
  "(0 < geologicalTime ts \<longrightarrow>
      0 \<le> mountainDensity (getTemporallyEvolvedSettings ts this) \<and>
      mountainDensity (getTemporallyEvolvedSettings ts this) \<le> 1 \<and>
      0 \<le> coastlineComplexity (getTemporallyEvolvedSettings ts this) \<and>
      coastlineComplexity (getTemporallyEvolvedSettings ts this) \<le> 1 \<and>
      0 \<le> landWaterRatio (getTemporallyEvolvedSettings ts this) \<and>
      landWaterRatio (getTemporallyEvolvedSettings ts this) \<le> 1) \<and>
   (0 < climaticShift ts \<longrightarrow>
      0 \<le> climate (getTemporallyEvolvedSettings ts this) \<and>
      climate (getTemporallyEvolvedSettings ts this) \<le> 1) \<and>
   (0 < atmosphericEvolution ts \<or> 0 < weatherCycle ts \<longrightarrow>
      0 \<le> atmosphere (getTemporallyEvolvedSettings ts this) \<and>
      atmosphere (getTemporallyEvolvedSettings ts this) \<le> 1) \<and>
   (0 < weatherCycle ts \<longrightarrow>
      0 \<le> clouds (getTemporallyEvolvedSettings ts this) \<and>
      clouds (getTemporallyEvolvedSettings ts this) \<le> 1) \<and>
   (\<not> 0 < geologicalTime ts \<longrightarrow>
      mountainDensity (getTemporallyEvolvedSettings ts this) = mountainDensity (baseSettings this) \<and>
      coastlineComplexity (getTemporallyEvolvedSettings ts this)
        = coastlineComplexity (baseSettings this) \<and>
      landWaterRatio (getTemporallyEvolvedSettings ts this) = landWaterRatio (baseSettings this)) \<and>
   (\<not> 0 < climaticShift ts \<longrightarrow>
      climate (getTemporallyEvolvedSettings ts this) = climate (baseSettings this)) \<and>
   (\<not> 0 < atmosphericEvolution ts \<and> \<not> 0 < weatherCycle ts \<longrightarrow>
      atmosphere (getTemporallyEvolvedSettings ts this) = atmosphere (baseSettings this)) \<and>
   (\<not> 0 < weatherCycle ts \<longrightarrow>
      clouds (getTemporallyEvolvedSettings ts this) = clouds (baseSettings this)) \<and>
   (boundedSettings (baseSettings this) \<longrightarrow>
      boundedSettings (getTemporallyEvolvedSettings ts this))"
proof -
  let ?e = "getTemporallyEvolvedSettings ts this"
  have geo: "0 < geologicalTime ts \<longrightarrow>
      0 \<le> mountainDensity ?e \<and> mountainDensity ?e \<le> 1 \<and>
      0 \<le> coastlineComplexity ?e \<and> coastlineComplexity ?e \<le> 1 \<and>
      0 \<le> landWaterRatio ?e \<and> landWaterRatio ?e \<le> 1"
    by (simp add: mountainDensity_evolved coastlineComplexity_evolved landWaterRatio_evolved)
  have cli: "0 < climaticShift ts \<longrightarrow> 0 \<le> climate ?e \<and> climate ?e \<le> 1"
    by (simp add: climate_evolved)
  have atm: "0 < atmosphericEvolution ts \<or> 0 < weatherCycle ts \<longrightarrow>
      0 \<le> atmosphere ?e \<and> atmosphere ?e \<le> 1"
    by (simp add: atmosphere_evolved Let_def)
  have clo: "0 < weatherCycle ts \<longrightarrow> 0 \<le> clouds ?e \<and> clouds ?e \<le> 1"
    by (simp add: clouds_evolved)
  have geo0: "\<not> 0 < geologicalTime ts \<longrightarrow>
      mountainDensity ?e = mountainDensity (baseSettings this) \<and>
      coastlineComplexity ?e = coastlineComplexity (baseSettings this) \<and>
      landWaterRatio ?e = landWaterRatio (baseSettings this)"
    by (simp add: mountainDensity_evolved coastlineComplexity_evolved landWaterRatio_evolved)
  have cli0: "\<not> 0 < climaticShift ts \<longrightarrow> climate ?e = climate (baseSettings this)"
    by (simp add: climate_evolved)
  have atm0: "\<not> 0 < atmosphericEvolution ts \<and> \<not> 0 < weatherCycle ts \<longrightarrow>
      atmosphere ?e = atmosphere (baseSettings this)"
    by (simp add: atmosphere_evolved Let_def)
  have clo0: "\<not> 0 < weatherCycle ts \<longrightarrow> clouds ?e = clouds (baseSettings this)"
    by (simp add: clouds_evolved)
  have bnd: "boundedSettings (baseSettings this) \<longrightarrow> boundedSettings ?e"
    using evolved_bounded_of_bounded_base by blast
  from geo cli atm clo geo0 cli0 atm0 clo0 bnd show ?thesis
    by blast
qed

lemma baseSettings_clockOver: "baseSettings (clockOver ps t) = ps"
  by (simp add: clockOver_def fastForward_def TemporalEvolution_new_def)

lemma outOfRange_fields:
  "mountainDensity outOfRangeSettings = 1.5 \<and> clouds outOfRangeSettings = -0.2"
  by (simp add: outOfRangeSettings_def)

lemma not_bounded_outOfRange: "\<not> boundedSettings outOfRangeSettings"
  by (simp add: boundedSettings_def outOfRangeSettings_def)

lemma knobs_positive:
  "0 < geologicalTime (activeKnobs 0.5) \<and> 0 < climaticShift (activeKnobs 0.5) \<and>
   0 < atmosphericEvolution (activeKnobs 0.5) \<and> 0 < weatherCycle (activeKnobs 0.5)"
  by (simp add: activeKnobs_def)

lemma knobs_zero:
  "\<not> 0 < geologicalTime knobsOff \<and> \<not> 0 < climaticShift knobsOff \<and>
   \<not> 0 < atmosphericEvolution knobsOff \<and> \<not> 0 < weatherCycle knobsOff"
  by (simp add: knobsOff_def)

text \<open>
  A base parameter set with mountain density 1.5 and clouds -0.2: with every knob positive
  all six evolved fields are in [0,1], with every knob at zero the two values come back
  as they are; and the default settings with every knob positive.
\<close>

theorem evolved_fields_clamped_when_knob_positive_witness:
  "\<not> boundedSettings (baseSettings (clockOver outOfRangeSettings 1000)) \<and>
   boundedSettings (getTemporallyEvolvedSettings (activeKnobs 0.5) (clockOver outOfRangeSettings 1000)) \<and>
   mountainDensity (getTemporallyEvolvedSettings knobsOff (clockOver outOfRangeSettings 1000)) = 1.5 \<and>
   clouds (getTemporallyEvolvedSettings knobsOff (clockOver outOfRangeSettings 1000)) = -0.2 \<and>
   boundedSettings (baseSettings (clockAt 1000)) \<and>
   boundedSettings (getTemporallyEvolvedSettings (activeKnobs 0.5) (clockAt 1000))"
proof -
  let ?out = "clockOver outOfRangeSettings 1000"
  have base: "\<not> boundedSettings (baseSettings ?out)"
    by (simp add: baseSettings_clockOver not_bounded_outOfRange)
  have active: "boundedSettings (getTemporallyEvolvedSettings (activeKnobs 0.5) ?out)"
    using evolved_fields_clamped_when_knob_positive [of "activeKnobs 0.5" ?out] knobs_positive
    unfolding boundedSettings_def by blast
  have off: "mountainDensity (getTemporallyEvolvedSettings knobsOff ?out) = 1.5 \<and>
             clouds (getTemporallyEvolvedSettings knobsOff ?out) = -0.2"
    using evolved_fields_clamped_when_knob_positive [of knobsOff ?out] knobs_zero
    by (simp add: baseSettings_clockOver outOfRange_fields)
  have dflt: "boundedSettings (baseSettings (clockAt 1000))"
    by (simp add: baseSettings_clockAt boundedSettings_default)
  have dflt': "boundedSettings (getTemporallyEvolvedSettings (activeKnobs 0.5) (clockAt 1000))"
    using evolved_fields_clamped_when_knob_positive [of "activeKnobs 0.5" "clockAt 1000"] dflt
    by blast
  from base active off dflt dflt' show ?thesis
    by blast
qed

text \<open>
  C6 as stated fails: with every knob at zero a base mountain density of 1.5 and base
  clouds of -0.2 are returned unclamped, outside [0,1].
\<close>

theorem unclamped_base_counterexample:
  "mountainDensity (getTemporallyEvolvedSettings knobsOff (clockOver outOfRangeSettings 1000)) = 1.5 \<and>
   clouds (getTemporallyEvolvedSettings knobsOff (clockOver outOfRangeSettings 1000)) = -0.2 \<and>
   \<not> boundedSettings (getTemporallyEvolvedSettings knobsOff (clockOver outOfRangeSettings 1000))"
  by (simp add: mountainDensity_evolved clouds_evolved knobs_zero baseSettings_clockOver
        outOfRange_fields boundedSettings_def)

text \<open>
  C7. With \<open>geologicalTime = 0\<close> the evolved mountain density, coastline complexity and
  land-water ratio are exactly those of the base parameter set, whatever the other knobs
  and the clock time.
\<close>

theorem no_geological_time_keeps_terrain:
  assumes "geologicalTime ts = 0"
  shows "mountainDensity (getTemporallyEvolvedSettings ts this) = mountainDensity (baseSettings this) \<and>
         coastlineComplexity (getTemporallyEvolvedSettings ts this) = coastlineComplexity (baseSettings this) \<and>
         landWaterRatio (getTemporallyEvolvedSettings ts this) = landWaterRatio (baseSettings this)"
  using assms
  by (simp add: mountainDensity_evolved coastlineComplexity_evolved landWaterRatio_evolved)

text \<open>
  Geological time 0 with all other knobs turned on, at time 1000.
\<close>

theorem no_geological_time_keeps_terrain_witness:
  "geologicalTime (activeKnobs 0) = 0 \<and>
   mountainDensity (getTemporallyEvolvedSettings (activeKnobs 0) (clockAt 1000)) = 0.3 \<and>
   coastlineComplexity (getTemporallyEvolvedSettings (activeKnobs 0) (clockAt 1000)) = 0.5 \<and>
   landWaterRatio (getTemporallyEvolvedSettings (activeKnobs 0) (clockAt 1000)) = 0.4"
  using no_geological_time_keeps_terrain [of "activeKnobs 0" "clockAt 1000"]
  by (simp add: activeKnobs_def baseSettings_clockAt defaultSettings_def)

lemma assign_last: "assign (h @ [e]) (length h) f = h @ [f e]"
  by (simp add: assign_def)

lemma nth_kept: "i < length h \<Longrightarrow> (h @ [e]) ! i = h ! i"
  by (simp add: nth_append)

lemma getTemporallyEvolvedSettings_store_eq:
  assumes "baseSettings_ref this < length h"
  shows "getTemporallyEvolvedSettings_store ts this h =
           (length h, this, h @ [getTemporallyEvolvedSettings ts (asValue this h)])"
  unfolding getTemporallyEvolvedSettings_store_def getTemporallyEvolvedSettings_def
    spread_def asValue_def
  apply (cases "0 < geologicalTime ts"; cases "0 < climaticShift ts";
         cases "0 < atmosphericEvolution ts"; cases "0 < weatherCycle ts")
  apply (simp_all only: if_True if_False)
  apply (simp_all only: Let_def case_prod_conv assign_last nth_kept [OF assms] nth_append_length)
  apply simp_all
  done


lemma evolved_settings_congruence:
  assumes "baseSettings s' = baseSettings s"
      and "TemporalEvolution.currentTime s' = TemporalEvolution.currentTime s"
      and "temporalNoise s' = temporalNoise s"
      and "weatherNoise s' = weatherNoise s"
  shows "getTemporallyEvolvedSettings ts s' = getTemporallyEvolvedSettings ts s"
  unfolding getTemporallyEvolvedSettings_def by (simp only: assms)

lemma asValue_kept:
  "baseSettings_ref this < length h \<Longrightarrow>
   getTemporallyEvolvedSettings ts (asValue this (h @ [e])) =
   getTemporallyEvolvedSettings ts (asValue this h)"
  by (rule evolved_settings_congruence) (simp_all add: asValue_def nth_kept)

lemma asValue_snapshots:
  "getTemporallyEvolvedSettings ts (asValue (this\<lparr>snapshots_obj := sn\<rparr>) h) =
   getTemporallyEvolvedSettings ts (asValue this h)"
  by (rule evolved_settings_congruence) (simp_all add: asValue_def)

text \<open>
  C8. Two calls in a row with the same temporal settings, the second on the clock object
  and the store the first one left, return objects with identical fields. The first call
  assigns to no field of the clock object and changes no object that existed before it
  (in particular not the base settings, since it writes to a copy); its result is a new
  object, which the second call leaves alone. The result is the value computed from the
  base settings, the current time, the noise generators and the temporal settings, and
  the recorded snapshots do not enter it.
\<close>

theorem repeated_call_returns_same_settings:
  assumes "baseSettings_ref this < length h"
  shows "(case getTemporallyEvolvedSettings_store ts this h of (r1, this1, h1) \<Rightarrow>
           (case getTemporallyEvolvedSettings_store ts this1 h1 of (r2, this2, h2) \<Rightarrow>
              h2 ! r2 = h1 ! r1 \<and> h2 ! r1 = h1 ! r1 \<and> r2 \<noteq> r1 \<and>
              this1 = this \<and> this2 = this \<and>
              take (length h) h1 = h \<and> take (length h) h2 = h \<and>
              h1 ! r1 = getTemporallyEvolvedSettings ts (asValue this h) \<and>
              (case getTemporallyEvolvedSettings_store ts (this\<lparr>snapshots_obj := sn\<rparr>) h of
                 (r3, this3, h3) \<Rightarrow> h3 ! r3 = h1 ! r1)))"
proof -
  let ?res = "getTemporallyEvolvedSettings ts (asValue this h)"
  have first: "getTemporallyEvolvedSettings_store ts this h = (length h, this, h @ [?res])"
    by (rule getTemporallyEvolvedSettings_store_eq [OF assms])
  have base': "baseSettings_ref this < length (h @ [?res])"
    using assms by simp
  have second: "getTemporallyEvolvedSettings_store ts this (h @ [?res])
                  = (Suc (length h), this, (h @ [?res]) @ [?res])"
    using getTemporallyEvolvedSettings_store_eq [OF base', of ts]
    by (simp add: asValue_kept [OF assms])
  have base3: "baseSettings_ref (this\<lparr>snapshots_obj := sn\<rparr>) < length h"
    using assms by simp
  have third: "getTemporallyEvolvedSettings_store ts (this\<lparr>snapshots_obj := sn\<rparr>) h
                 = (length h, this\<lparr>snapshots_obj := sn\<rparr>, h @ [?res])"
    using getTemporallyEvolvedSettings_store_eq [OF base3, of ts]
    by (simp add: asValue_snapshots)
  show ?thesis
    by (simp add: first second third nth_append)
qed

text \<open>
  A clock object at time 1000 over a store holding the default settings, every knob turned on.
\<close>

theorem repeated_call_returns_same_settings_witness:
  "baseSettings_ref (clockObject 1000) < length [defaultSettings] \<and>
   (case getTemporallyEvolvedSettings_store (activeKnobs 0.5) (clockObject 1000) [defaultSettings] of
      (r1, this1, h1) \<Rightarrow>
        (case getTemporallyEvolvedSettings_store (activeKnobs 0.5) this1 h1 of
           (r2, this2, h2) \<Rightarrow>
             h2 ! r2 = h1 ! r1 \<and> h2 ! r1 = h1 ! r1 \<and> r2 \<noteq> r1 \<and>
             this1 = clockObject 1000 \<and> this2 = clockObject 1000 \<and>
             take 1 h1 = [defaultSettings] \<and> take 1 h2 = [defaultSettings]))"
  using repeated_call_returns_same_settings
          [of "clockObject 1000" "[defaultSettings]" "activeKnobs 0.5" "[]"]
  by (simp add: clockObject_def split: prod.splits)

text \<open>
  C3 (as the code has it). At 250,000 simulated years the description is
  \<open>0.2M years\<close>: the millions tier prints \<open>floor(time / 100000) / 10\<close>, and
  250,000 years are 0.25 million.
\<close>

theorem timeDescription_250000:
  assumes "TemporalEvolution.currentTime this = 250000"
  shows "getTimeDescription this = ''0.2M years''"
  using assms by (simp add: getTimeDescription_def tenthsToString_def)

text \<open>
  A clock fast-forwarded from zero to 250,000.
\<close>

theorem timeDescription_250000_witness:
  "TemporalEvolution.currentTime (clockAt 250000) = 250000 \<and>
   getTimeDescription (clockAt 250000) = ''0.2M years''"
  using timeDescription_250000 [of "clockAt 250000"]
  by (simp add: currentTime_clockAt)

text \<open>
  C3 as stated fails: at 250,000 the description is not \<open>2.5M years\<close>.
\<close>

theorem timeDescription_250000_counterexample:
  "getTimeDescription (clockAt 250000) \<noteq> ''2.5M years''"
  by (simp add: getTimeDescription_def tenthsToString_def currentTime_clockAt)

text \<open>
  C10. \<open>rewind\<close> sets the current time to \<open>max 0 (t - d)\<close>, leaves every other field of
  the clock alone and never yields a negative time. It takes no temporal settings, so it
  acts whether or not the clock is paused.
\<close>

theorem rewind_clamps_at_zero:
  "TemporalEvolution.currentTime (rewind duration this)
     = max 0 (TemporalEvolution.currentTime this - duration) \<and>
   0 \<le> TemporalEvolution.currentTime (rewind duration this) \<and>
   rewind duration this
     = this\<lparr>TemporalEvolution.currentTime := max 0 (TemporalEvolution.currentTime this - duration)\<rparr>"
  by (simp add: rewind_def)

section \<open>Properties of the weather system\<close>

subsection \<open>Storms\<close>

lemma age_updateStorm: "age (updateStorm w dt ts s) = age s + dt * ts"
  by (simp add: updateStorm_def Let_def)

lemma lifespan_updateStorm: "lifespan (updateStorm w dt ts s) = lifespan s"
  by (simp add: updateStorm_def Let_def)

lemma type_updateStorm: "type (updateStorm w dt ts s) = type s"
  by (simp add: updateStorm_def Let_def)

lemma intensity_updateStorm:
  "intensity (updateStorm w dt ts s) =
     (if age s + dt * ts < lifespan s * 0.2
      then ((age s + dt * ts) / (lifespan s * 0.2)) * intensity s
      else if age s + dt * ts > lifespan s * 0.8
      then intensity s * (1 - ((age s + dt * ts - lifespan s * 0.8) / (lifespan s * 0.2)))
      else intensity s)"
  by (simp add: updateStorm_def Let_def)

lemma stormSystems_update:
  "stormSystems (update dt ts roll d ws) =
     filter stormStays (map (updateStorm (globalWindPattern ws) dt ts) (stormSystems ws))
       @ (if roll < 0.02 then [newStorm d] else [])"
  by (simp add: update_def Let_def spawnRandomStorm_def)

lemma stormSystems_new: "stormSystems (WeatherSystem_new mk sd) = []"
  by (simp add: WeatherSystem_new_def Let_def)

lemma stormSystems_afterSpawn: "stormSystems (afterSpawn d) = [newStorm d]"
  by (simp add: afterSpawn_def stormSystems_update stormSystems_new)

lemma age_newStorm: "age (newStorm d) = 0"
  by (cases "stormTypes ! nat \<lfloor>typeDraw d * real (length stormTypes)\<rfloor>")
     (simp_all add: newStorm_def Let_def)

lemma lifespan_newStorm: "0 \<le> lifespanDraw d \<Longrightarrow> 50 \<le> lifespan (newStorm d)"
  by (cases "stormTypes ! nat \<lfloor>typeDraw d * real (length stormTypes)\<rfloor>")
     (simp_all add: newStorm_def Let_def)

lemma intensity_newStorm:
  assumes "0 \<le> intensityDraw d" "intensityDraw d < 1"
  shows "(case type (newStorm d) of
            cyclone \<Rightarrow> 0.6 \<le> intensity (newStorm d) \<and> intensity (newStorm d) < 1.2
          | dust \<Rightarrow> 0.4 \<le> intensity (newStorm d) \<and> intensity (newStorm d) < 0.8
          | _ \<Rightarrow> 0.5 \<le> intensity (newStorm d) \<and> intensity (newStorm d) < 1)"
  using assms
  by (cases "stormTypes ! nat \<lfloor>typeDraw d * real (length stormTypes)\<rfloor>")
     (simp_all add: newStorm_def Let_def)


lemma updateStorm_intensity_le:
  assumes L: "0 < lifespan s" and I: "0 \<le> intensity s"
  shows "intensity (updateStorm w dt ts s) \<le> intensity s"
proof -
  let ?a = "age s + dt * ts"
  let ?L = "lifespan s"
  let ?I = "intensity s"
  consider (grow) "?a < ?L * 0.2"
    | (fade) "\<not> ?a < ?L * 0.2" "?a > ?L * 0.8"
    | (steady) "\<not> ?a < ?L * 0.2" "\<not> ?a > ?L * 0.8"
    by blast
  then show ?thesis
  proof cases
    case grow
    then have eq: "intensity (updateStorm w dt ts s) = (?a / (?L * 0.2)) * ?I"
      by (simp add: intensity_updateStorm)
    have "?a / (?L * 0.2) \<le> 1"
      using grow L by (simp add: divide_le_eq)
    then have "(?a / (?L * 0.2)) * ?I \<le> 1 * ?I"
      using I by (rule mult_right_mono)
    with eq show ?thesis by simp
  next
    case fade
    then have eq: "intensity (updateStorm w dt ts s)
                     = ?I * (1 - ((?a - ?L * 0.8) / (?L * 0.2)))"
      by (simp add: intensity_updateStorm)
    have "0 \<le> (?a - ?L * 0.8) / (?L * 0.2)"
      using fade L by simp
    then have "1 - ((?a - ?L * 0.8) / (?L * 0.2)) \<le> 1"
      by simp
    then have "?I * (1 - ((?a - ?L * 0.8) / (?L * 0.2))) \<le> ?I * 1"
      using I by (rule mult_left_mono)
    with eq show ?thesis by simp
  next
    case steady
    then show ?thesis by (simp add: intensity_updateStorm)
  qed
qed

lemma stormSystems_reset: "stormSystems (reset ws) = []"
  by (simp add: reset_def)

lemma reachable_storm_invariant:
  assumes "reachable mk sd ws"
  shows "\<forall>s\<in>set (stormSystems ws).
           0.1 < intensity s \<and> intensity s < 1.2 \<and>
           (type s \<noteq> cyclone \<longrightarrow> intensity s < 1) \<and> 0 < lifespan s"
  using assms
proof (induction rule: reachable.induct)
  case reachable_new
  show ?case by (simp add: stormSystems_new)
next
  case (reachable_update ws d spawnRoll deltaTime timeSpeed')
  show ?case
  proof
    fix s
    assume "s \<in> set (stormSystems (update deltaTime timeSpeed' spawnRoll d ws))"
    then consider
        (kept) s0 where "s0 \<in> set (stormSystems ws)"
          "s = updateStorm (globalWindPattern ws) deltaTime timeSpeed' s0" "stormStays s"
      | (spawned) "s = newStorm d"
      by (auto simp: stormSystems_update split: if_splits)
    then show "0.1 < intensity s \<and> intensity s < 1.2 \<and>
               (type s \<noteq> cyclone \<longrightarrow> intensity s < 1) \<and> 0 < lifespan s"
    proof cases
      case kept
      from reachable_update.IH kept(1)
      have old: "0.1 < intensity s0" "intensity s0 < 1.2"
                "type s0 \<noteq> cyclone \<longrightarrow> intensity s0 < 1" "0 < lifespan s0"
        by blast+
      from old have "intensity s \<le> intensity s0"
        unfolding kept(2) by (intro updateStorm_intensity_le) simp_all
      moreover from kept(3) have "0.1 < intensity s"
        by (simp add: stormStays_def)
      moreover have "type s = type s0" "lifespan s = lifespan s0"
        unfolding kept(2) by (simp_all add: type_updateStorm lifespan_updateStorm)
      ultimately show ?thesis using old by auto
    next
      case spawned
      from reachable_update.hyps have d: "0 \<le> intensityDraw d" "intensityDraw d < 1"
        "0 \<le> lifespanDraw d"
        by (simp_all add: validDraws_def)
      from intensity_newStorm [OF d(1,2)] lifespan_newStorm [OF d(3)]
      show ?thesis unfolding spawned
        by (cases "type (newStorm d)") simp_all
    qed
  qed
next
  case (reachable_reset ws)
  show ?case by (simp add: stormSystems_reset)
qed

text \<open>
  C4 (as the code has it). In every state a weather system goes through, after a spawn and
  after every update tick, each active storm has intensity in (0.1, 1.2), and below 1
  unless it is a cyclone: a cyclone is spawned with 1.2 times the base intensity of
  [0.5, 1), no tick raises an intensity, and a tick keeps only storms above 0.1.
\<close>

theorem storm_intensity_range:
  assumes "reachable mkNoise seed' ws" and "s \<in> set (stormSystems ws)"
  shows "0.1 < intensity s \<and> intensity s < 1.2 \<and> (type s \<noteq> cyclone \<longrightarrow> intensity s < 1)"
  using reachable_storm_invariant [OF assms(1)] assms(2) by blast

lemma validDraws_spawnDraws:
  "0 \<le> t \<Longrightarrow> t < 1 \<Longrightarrow> 0 \<le> i \<Longrightarrow> i < 1 \<Longrightarrow> 0 \<le> l \<Longrightarrow> l < 1 \<Longrightarrow> validDraws (spawnDraws t i l)"
  by (simp add: validDraws_def spawnDraws_def)

lemma reachable_afterSpawn: "validDraws d \<Longrightarrow> reachable zeroNoise 0 (afterSpawn d)"
  unfolding afterSpawn_def by (rule reachable_update [OF reachable_new]) simp_all

lemma newStorm_thunderstorm:
  "type (newStorm (spawnDraws 0 i l)) = thunderstorm \<and>
   intensity (newStorm (spawnDraws 0 i l)) = 0.5 + i * 0.5 \<and>
   lifespan (newStorm (spawnDraws 0 i l)) = 50 + l * 200 \<and>
   age (newStorm (spawnDraws 0 i l)) = 0"
  by (simp add: newStorm_def spawnDraws_def stormTypes_def Let_def)

lemma newStorm_cyclone:
  "type (newStorm (spawnDraws 0.3 i l)) = cyclone \<and>
   intensity (newStorm (spawnDraws 0.3 i l)) = (0.5 + i * 0.5) * 1.2 \<and>
   lifespan (newStorm (spawnDraws 0.3 i l)) = (50 + l * 200) * 2 \<and>
   age (newStorm (spawnDraws 0.3 i l)) = 0"
  by (simp add: newStorm_def spawnDraws_def stormTypes_def Let_def)

text \<open>
  A thunderstorm spawned with intensity draw 0.9.
\<close>

theorem storm_intensity_range_witness:
  "reachable zeroNoise 0 (afterSpawn (spawnDraws 0 0.9 0.5)) \<and>
   newStorm (spawnDraws 0 0.9 0.5) \<in> set (stormSystems (afterSpawn (spawnDraws 0 0.9 0.5))) \<and>
   type (newStorm (spawnDraws 0 0.9 0.5)) \<noteq> cyclone \<and>
   0.1 < intensity (newStorm (spawnDraws 0 0.9 0.5)) \<and>
   intensity (newStorm (spawnDraws 0 0.9 0.5)) < 1"
proof -
  have r: "reachable zeroNoise 0 (afterSpawn (spawnDraws 0 0.9 0.5))"
    by (rule reachable_afterSpawn) (simp add: validDraws_spawnDraws)
  have m: "newStorm (spawnDraws 0 0.9 0.5) \<in> set (stormSystems (afterSpawn (spawnDraws 0 0.9 0.5)))"
    by (simp add: stormSystems_afterSpawn)
  from storm_intensity_range [OF r m] r m show ?thesis
    by (simp add: newStorm_thunderstorm)
qed

text \<open>
  C4 as stated fails: a cyclone spawned with intensity draw 0.9 has intensity
  (0.5 + 0.9 \<times> 0.5) \<times> 1.2 = 1.14, above 1.
\<close>

theorem cyclone_intensity_counterexample:
  "reachable zeroNoise 0 (afterSpawn (spawnDraws 0.3 0.9 0.5)) \<and>
   stormSystems (afterSpawn (spawnDraws 0.3 0.9 0.5)) = [newStorm (spawnDraws 0.3 0.9 0.5)] \<and>
   type (newStorm (spawnDraws 0.3 0.9 0.5)) = cyclone \<and>
   intensity (newStorm (spawnDraws 0.3 0.9 0.5)) = 1.14 \<and>
   \<not> intensity (newStorm (spawnDraws 0.3 0.9 0.5)) \<le> 1"
proof -
  have r: "reachable zeroNoise 0 (afterSpawn (spawnDraws 0.3 0.9 0.5))"
    by (rule reachable_afterSpawn) (simp add: validDraws_spawnDraws)
  then show ?thesis
    by (simp add: stormSystems_afterSpawn newStorm_cyclone)
qed

text \<open>
  C5. After an update every storm in the active set has age below its lifespan (a newly
  spawned one has age 0 and lifespan at least 50), and a storm whose age reaches its
  lifespan in this tick is not in the active set afterwards.
\<close>

theorem update_drops_expired_storms:
  assumes "0 \<le> lifespanDraw d"
  shows "(\<forall>s\<in>set (stormSystems (update deltaTime timeSpeed' spawnRoll d ws)). age s < lifespan s) \<and>
         (\<forall>s\<in>set (stormSystems ws).
            lifespan s \<le> age s + deltaTime * timeSpeed' \<longrightarrow>
            updateStorm (globalWindPattern ws) deltaTime timeSpeed' s
              \<notin> set (stormSystems (update deltaTime timeSpeed' spawnRoll d ws)))"
proof -
  have new: "age (newStorm d) < lifespan (newStorm d)"
    using lifespan_newStorm [OF assms] by (simp add: age_newStorm)
  have all: "\<forall>s\<in>set (stormSystems (update deltaTime timeSpeed' spawnRoll d ws)). age s < lifespan s"
    using new by (auto simp: stormSystems_update stormStays_def split: if_splits)
  have gone: "updateStorm (globalWindPattern ws) deltaTime timeSpeed' s
                \<notin> set (stormSystems (update deltaTime timeSpeed' spawnRoll d ws))"
    if "lifespan s \<le> age s + deltaTime * timeSpeed'" for s
  proof
    assume "updateStorm (globalWindPattern ws) deltaTime timeSpeed' s
              \<in> set (stormSystems (update deltaTime timeSpeed' spawnRoll d ws))"
    with all have "age (updateStorm (globalWindPattern ws) deltaTime timeSpeed' s)
                     < lifespan (updateStorm (globalWindPattern ws) deltaTime timeSpeed' s)"
      by blast
    with that show False
      by (simp add: age_updateStorm lifespan_updateStorm)
  qed
  from all gone show ?thesis by blast
qed

lemma lifespanDraw_spawnDraws: "lifespanDraw (spawnDraws t i l) = l"
  by (simp add: spawnDraws_def)

text \<open>
  A thunderstorm of lifespan 80: kept by a tick to age 8, dropped by a tick to age 80.
\<close>

theorem update_drops_expired_storms_witness:
  "0 \<le> lifespanDraw (spawnDraws 0 0.5 0.15) \<and>
   map (\<lambda>s. (age s, lifespan s)) (stormSystems (afterSpawn (spawnDraws 0 0.5 0.15))) = [(0, 80)] \<and>
   map (\<lambda>s. (age s, lifespan s))
     (stormSystems (update 8 1 0.5 (spawnDraws 0 0.5 0.15) (afterSpawn (spawnDraws 0 0.5 0.15))))
     = [(8, 80)] \<and>
   stormSystems (update 80 1 0.5 (spawnDraws 0 0.5 0.15) (afterSpawn (spawnDraws 0 0.5 0.15))) = []"
  using update_drops_expired_storms
          [of "spawnDraws 0 0.5 0.15" 80 1 "0.5" "afterSpawn (spawnDraws 0 0.5 0.15)"]
  by (simp add: stormSystems_update stormSystems_afterSpawn stormStays_def
        age_updateStorm lifespan_updateStorm intensity_updateStorm newStorm_thunderstorm
        lifespanDraw_spawnDraws)

text \<open>
  C2. The growing phase multiplies the storm's current intensity by
  \<open>age / (0.2 \<times> lifespan)\<close> at every tick, so the intensity shrinks instead of ramping up
  to the spawn intensity. A thunderstorm spawned with intensity 0.75 and lifespan 80 has
  intensity 0.375 at age 8 and 0.28125 at age 12, both within the first 20% of its
  lifespan (a linear ramp would give 0.375 and 0.5625); with a first tick of 1/64 its
  intensity falls to 0.75 / 1024, below the floor 0.1, and it is removed at once.
\<close>

theorem growing_phase_intensity_shrinks:
  "map (\<lambda>s. (age s, lifespan s, intensity s))
     (stormSystems (afterSpawn (spawnDraws 0 0.5 0.15))) = [(0, 80, 0.75)] \<and>
   map (\<lambda>s. (age s, lifespan s, intensity s))
     (stormSystems (update 8 1 0.5 (spawnDraws 0 0 0) (afterSpawn (spawnDraws 0 0.5 0.15))))
     = [(8, 80, 0.375)] \<and>
   map (\<lambda>s. (age s, lifespan s, intensity s))
     (stormSystems (update 4 1 0.5 (spawnDraws 0 0 0)
        (update 8 1 0.5 (spawnDraws 0 0 0) (afterSpawn (spawnDraws 0 0.5 0.15)))))
     = [(12, 80, 0.28125)] \<and>
   stormSystems (update (1/64) 1 0.5 (spawnDraws 0 0 0) (afterSpawn (spawnDraws 0 0.5 0.15))) = []"
  by (simp add: stormSystems_update stormSystems_afterSpawn stormStays_def
        age_updateStorm lifespan_updateStorm intensity_updateStorm newStorm_thunderstorm)

subsection \<open>Temperature lattice\<close>

lemma length_generateTemperatureMap: "length (generateTemperatureMap nz) = 36"
  by (simp add: generateTemperatureMap_def)

lemma length_generateTemperatureMap_row:
  "i < 36 \<Longrightarrow> length (generateTemperatureMap nz ! i) = 72"
  by (simp add: generateTemperatureMap_def)

lemma generateTemperatureMap_cell:
  assumes "i < 36" "j < 72"
  shows "0 \<le> generateTemperatureMap nz ! i ! j \<and> generateTemperatureMap nz ! i ! j \<le> 1"
  using assms by (simp add: generateTemperatureMap_def Let_def)

lemma temperatureMap_reachable:
  "reachable mk sd ws \<Longrightarrow> temperatureMap ws = generateTemperatureMap (mk (sd + 70000))"
  by (induction rule: reachable.induct)
     (simp_all add: WeatherSystem_new_def update_def reset_def spawnRandomStorm_def Let_def)

lemma getTemperatureAt_indices:
  assumes "-1 \<le> y p" "y p \<le> 1"
  shows "getTemperatureAt ws p =
     (if latIndexOf p \<ge> 0 \<and> latIndexOf p < int (length (temperatureMap ws)) then
        (case js_nth (temperatureMap ws) 0 of
           None \<Rightarrow> Inl TypeError
         | Some row0 \<Rightarrow>
             if lonIndexOf p \<ge> 0 \<and> lonIndexOf p < int (length row0) then
               (case js_nth (temperatureMap ws) (latIndexOf p) of
                  None \<Rightarrow> Inl TypeError
                | Some row \<Rightarrow>
                    (case js_nth row (lonIndexOf p) of
                       None \<Rightarrow> Inl UndefinedResult
                     | Some t \<Rightarrow> Inr t))
             else Inr 0.5)
      else Inr 0.5)"
  unfolding getTemperatureAt_def Math_asin_def latIndexOf_def lonIndexOf_def Let_def
  using assms by (simp only: simp_thms if_True option.case)

lemma getTemperatureAt_generated:
  assumes tm: "temperatureMap ws = generateTemperatureMap nz"
  shows "getTemperatureAt ws p = Inr (latticeTemperature ws p)"
proof (cases "-1 \<le> y p \<and> y p \<le> 1")
  case False
  then show ?thesis
    by (auto simp: getTemperatureAt_def Math_asin_def latticeTemperature_def inLattice_def)
next
  case True
  let ?i = "latIndexOf p"
  let ?j = "lonIndexOf p"
  have row0: "js_nth (temperatureMap ws) 0 = Some (generateTemperatureMap nz ! 0)"
    by (simp add: js_nth_def tm length_generateTemperatureMap)
  have len0: "length (generateTemperatureMap nz ! 0) = 72"
    by (simp add: length_generateTemperatureMap_row)
  show ?thesis
  proof (cases "0 \<le> ?i \<and> ?i < 36 \<and> 0 \<le> ?j \<and> ?j < 72")
    case inside: True
    then have i: "nat ?i < 36" and j: "nat ?j < 72" by auto
    have rowi: "js_nth (temperatureMap ws) ?i = Some (generateTemperatureMap nz ! nat ?i)"
      using inside by (simp add: js_nth_def tm length_generateTemperatureMap)
    have cell: "js_nth (generateTemperatureMap nz ! nat ?i) ?j
                  = Some (generateTemperatureMap nz ! nat ?i ! nat ?j)"
      using inside by (simp add: js_nth_def length_generateTemperatureMap_row [OF i])
    have "getTemperatureAt ws p = Inr (generateTemperatureMap nz ! nat ?i ! nat ?j)"
      using True inside
      by (simp add: getTemperatureAt_indices row0 len0 rowi cell
            tm [THEN arg_cong, of length] length_generateTemperatureMap)
    then show ?thesis
      using True inside by (simp add: latticeTemperature_def inLattice_def tm)
  next
    case outside: False
    have "getTemperatureAt ws p = Inr 0.5"
      using True outside
      by (auto simp: getTemperatureAt_indices row0 len0
            tm [THEN arg_cong, of length] length_generateTemperatureMap)
    moreover from outside have "\<not> inLattice p"
      unfolding inLattice_def by blast
    ultimately show ?thesis
      by (simp add: latticeTemperature_def)
  qed
qed

lemma latticeTemperature_range:
  assumes tm: "temperatureMap ws = generateTemperatureMap nz"
  shows "0 \<le> latticeTemperature ws p \<and> latticeTemperature ws p \<le> 1"
proof (cases "inLattice p")
  case True
  then have "nat (latIndexOf p) < 36" "nat (lonIndexOf p) < 72"
    by (auto simp: inLattice_def)
  from generateTemperatureMap_cell [OF this, of nz] True show ?thesis
    by (simp add: latticeTemperature_def tm)
next
  case False
  then show ?thesis by (simp add: latticeTemperature_def)
qed

text \<open>
  C9. In every state a weather system goes through, \<open>getTemperatureAt\<close> returns a number
  for every position and never fails: the lattice cell for the derived indices when they
  lie inside the 36 \<times> 72 lattice, the default 0.5 otherwise (also when \<^verbatim>\<open>Math.asin\<close>
  is NaN), and the result lies in [0,1].
\<close>

theorem getTemperatureAt_total:
  assumes "reachable mkNoise seed' ws"
  shows "getTemperatureAt ws p = Inr (latticeTemperature ws p) \<and>
         (\<not> inLattice p \<longrightarrow> getTemperatureAt ws p = Inr 0.5) \<and>
         0 \<le> latticeTemperature ws p \<and> latticeTemperature ws p \<le> 1"
  using getTemperatureAt_generated [OF temperatureMap_reachable [OF assms], of p]
        latticeTemperature_range [OF temperatureMap_reachable [OF assms], of p]
  by (simp add: latticeTemperature_def)

lemma inLattice_equator: "inLattice \<lparr>x = 1, y = 0, z = 0\<rparr>"
  by (simp add: inLattice_def latIndexOf_def lonIndexOf_def Math_atan2_def)

lemma latIndexOf_equator: "latIndexOf \<lparr>x = 1, y = 0, z = 0\<rparr> = 18"
  by (simp add: latIndexOf_def)

lemma lonIndexOf_equator: "lonIndexOf \<lparr>x = 1, y = 0, z = 0\<rparr> = 36"
  by (simp add: lonIndexOf_def Math_atan2_def)

lemma not_inLattice_antimeridian: "\<not> inLattice \<lparr>x = -1, y = 0, z = 0\<rparr>"
  by (simp add: inLattice_def latIndexOf_def lonIndexOf_def Math_atan2_def)

lemma not_inLattice_outside_sphere: "\<not> inLattice \<lparr>x = 0, y = 2, z = 0\<rparr>"
  by (simp add: inLattice_def)

lemma temperature_cell_zeroNoise:
  "temperatureMap (WeatherSystem_new zeroNoise 0) ! 18 ! 36 = 1"
  by (simp add: WeatherSystem_new_def Let_def generateTemperatureMap_def zeroNoise_def)

text \<open>
  On the equator at (1, 0, 0) the cell (18, 36) is read; at (-1, 0, 0) the longitude is 360
  and the index 72 falls outside the lattice; at (0, 2, 0) the latitude is NaN.
\<close>

theorem getTemperatureAt_total_witness:
  "reachable zeroNoise 0 (WeatherSystem_new zeroNoise 0) \<and>
   getTemperatureAt (WeatherSystem_new zeroNoise 0) \<lparr>x = 1, y = 0, z = 0\<rparr> = Inr 1 \<and>
   getTemperatureAt (WeatherSystem_new zeroNoise 0) \<lparr>x = -1, y = 0, z = 0\<rparr> = Inr 0.5 \<and>
   getTemperatureAt (WeatherSystem_new zeroNoise 0) \<lparr>x = 0, y = 2, z = 0\<rparr> = Inr 0.5"
  using getTemperatureAt_total [OF reachable_new, of zeroNoise 0 "\<lparr>x = 1, y = 0, z = 0\<rparr>"]
        getTemperatureAt_total [OF reachable_new, of zeroNoise 0 "\<lparr>x = -1, y = 0, z = 0\<rparr>"]
        getTemperatureAt_total [OF reachable_new, of zeroNoise 0 "\<lparr>x = 0, y = 2, z = 0\<rparr>"]
  by (simp add: reachable_new latticeTemperature_def inLattice_equator latIndexOf_equator
        lonIndexOf_equator not_inLattice_antimeridian not_inLattice_outside_sphere
        temperature_cell_zeroNoise)

end
